theory Spec2Isabelle
  imports Complex_Main
begin

text \<open>
  A model of the request path of two provider adapters of llm-interface:
  \<open>Writer.updateMessageObject\<close> (\<open>interfaces/writer.js\<close>), which rewrites the messages
  of a conversation, and \<open>Gemini.convertDataStructure\<close> and \<open>Gemini.sendMessage\<close>
  (\<open>interfaces/gemini.js\<close>), which convert a conversation, look the request up in the
  response cache, invoke the provider in a retry loop with a growing delay, reshape the
  answer and store it. JavaScript values, exceptions, the array a caller shares with
  \<open>updateMessageObject\<close>, and the effects of \<open>sendMessage\<close> are explicit.
\<close>

section \<open>JavaScript values\<close>

text \<open>
  A JavaScript number that the code only tests or passes on (an option, a value parsed
  from JSON, a time) is the rational it denotes; a decimal literal such as \<open>0.9\<close>
  stands for the double nearest to it. Where the code computes with numbers (the delay
  of the retry loop), the arithmetic is that of IEEE 754 doubles, modelled in the next
  section. \<open>JUndefined\<close> is what a function returns when it falls off its end.
\<close>

type_synonym number = rat

datatype jsval =
    JUndefined
  | JNull
  | JBool bool
  | JNum number
  | JStr string
  | JArr "jsval list"
  | JObj "(string \<times> jsval) list"

text \<open>The truthiness test of \<open>if (v)\<close>, \<open>a && b\<close> and \<open>a || b\<close>.\<close>

fun truthy :: "jsval \<Rightarrow> bool" where
  "truthy JUndefined = False"
| "truthy JNull = False"
| "truthy (JBool b) = b"
| "truthy (JNum n) = (n \<noteq> 0)"
| "truthy (JStr s) = (s \<noteq> [])"
| "truthy (JArr _) = True"
| "truthy (JObj _) = True"

text \<open>What a \<open>throw\<close> carries: a TypeError raised by the runtime, or an error of the
  provider client with the optional \<open>error.response.data\<close>.\<close>

datatype js_error =
    TypeError string
  | ProviderError string "jsval option"

datatype outcome = Returned jsval | Thrown js_error


section \<open>Double arithmetic\<close>

text \<open>
  The result of an arithmetic operation on doubles: a finite double, given as the
  rational it denotes (the two zeros are not told apart), an infinity, or NaN.
\<close>

datatype double = Finite rat | PosInfinity | NegInfinity | NaN

text \<open>The number of binary digits of a positive integer.\<close>

function bit_length :: "int \<Rightarrow> int" where
  "bit_length n = (if n \<le> 0 then 0 else bit_length (n div 2) + 1)"
  by pat_completeness auto
termination
  by (relation "measure nat") auto

definition pow2 :: "int \<Rightarrow> rat" where
  "pow2 k = (if k \<ge> 0 then 2 ^ nat k else 1 / 2 ^ nat (- k))"

text \<open>\<open>scale p q k\<close> is a fraction equal to \<open>(p / q) / 2 ^ k\<close>.\<close>

definition scale :: "int \<Rightarrow> int \<Rightarrow> int \<Rightarrow> int \<times> int" where
  "scale p q k = (if k \<ge> 0 then (p, q * 2 ^ nat k) else (p * 2 ^ nat (- k), q))"

text \<open>The binary exponent of \<open>p / q\<close> for positive \<open>p\<close> and \<open>q\<close>: the \<open>e\<close> with
  \<open>2 ^ e \<le> p / q < 2 ^ (e + 1)\<close>. It is the difference of the bit lengths or one less.\<close>

definition ilog2 :: "int \<Rightarrow> int \<Rightarrow> int" where
  "ilog2 p q =
     (let b = bit_length p - bit_length q;
          (num, den) = scale p q b
      in if den \<le> num then b else b - 1)"

text \<open>The integer nearest to \<open>num / den\<close>, the even one of the two when it is halfway.\<close>

definition round_half_even :: "int \<Rightarrow> int \<Rightarrow> int" where
  "round_half_even num den =
     (let f = num div den; r = num mod den
      in if 2 * r < den then f else if 2 * r > den then f + 1
         else if even f then f else f + 1)"

text \<open>
  Rounding to the nearest double (binary64, ties to even). With \<open>e\<close> the binary
  exponent of \<open>|x|\<close>, not below that of the subnormal numbers, the doubles around
  \<open>|x|\<close> are the multiples of \<open>2 ^ (e - 52)\<close>; a result of \<open>2 ^ 1024\<close> or more is
  an infinity.
\<close>

definition nearest_double :: "rat \<Rightarrow> double" where
  "nearest_double x =
     (if x = 0 then Finite 0
      else
        let (p, q) = quotient_of \<bar>x\<bar>;
            e = max (ilog2 p q) (- 1022);
            (num, den) = scale p q (e - 52);
            n = round_half_even num den
        in if e > 1023 \<or> (e = 1023 \<and> n \<ge> 2 ^ 53)
           then (if x > 0 then PosInfinity else NegInfinity)
           else Finite ((if x > 0 then 1 else - 1) * of_int n * pow2 (e - 52)))"

text \<open>The operator \<open>*\<close> on doubles: the exact product, rounded.\<close>

fun times :: "double \<Rightarrow> double \<Rightarrow> double" where
  "times (Finite x) (Finite y) = nearest_double (x * y)"
| "times NaN _ = NaN"
| "times _ NaN = NaN"
| "times (Finite x) PosInfinity =
     (if x > 0 then PosInfinity else if x < 0 then NegInfinity else NaN)"
| "times (Finite x) NegInfinity =
     (if x > 0 then NegInfinity else if x < 0 then PosInfinity else NaN)"
| "times PosInfinity (Finite y) =
     (if y > 0 then PosInfinity else if y < 0 then NegInfinity else NaN)"
| "times NegInfinity (Finite y) =
     (if y > 0 then NegInfinity else if y < 0 then PosInfinity else NaN)"
| "times PosInfinity PosInfinity = PosInfinity"
| "times PosInfinity NegInfinity = NegInfinity"
| "times NegInfinity PosInfinity = NegInfinity"
| "times NegInfinity NegInfinity = PosInfinity"

text \<open>The literal \<open>0.3\<close>: the double nearest to 3/10 (lemma \<open>double_0_3_nearest\<close>),
  which is 5404319552844595 / 2 ^ 54.\<close>

definition double_0_3 :: number where
  "double_0_3 = 5404319552844595 / 18014398509481984"


section \<open>Messages\<close>

record message =
  role :: string
  content :: string

text \<open>
  A message object \<open>{ model, messages }\<close>. The type of \<open>messages\<close> is a parameter:
  an address into the store of arrays where the code mutates the array in place
  (\<open>Writer\<close>), the list of messages where the code only reads it (\<open>Gemini\<close>).
\<close>

record 'm message_object =
  model :: "string option"
  messages :: 'm


section \<open>interfaces/writer.js\<close>

subsection \<open>The store of message arrays\<close>

type_synonym addr = nat

record store =
  arrays :: "addr \<rightharpoonup> message list"
  next_addr :: addr

text \<open>\<open>Array.prototype.shift\<close>: removes the first element in place; nothing to do on
  an empty array.\<close>

definition shift :: "store \<Rightarrow> addr \<Rightarrow> store" where
  "shift h a =
     (case arrays h a of
        Some (x # xs) \<Rightarrow> h\<lparr>arrays := (arrays h)(a \<mapsto> xs)\<rparr>
      | _ \<Rightarrow> h)"

text \<open>\<open>Array.prototype.unshift\<close>: inserts an element at the front in place.\<close>

definition unshift :: "store \<Rightarrow> addr \<Rightarrow> message \<Rightarrow> store" where
  "unshift h a x =
     (case arrays h a of
        Some xs \<Rightarrow> h\<lparr>arrays := (arrays h)(a \<mapsto> x # xs)\<rparr>
      | None \<Rightarrow> h)"

text \<open>\<open>Array.prototype.map\<close> with the index: the result is a new array at a fresh
  address.\<close>

definition array_map :: "(message \<Rightarrow> nat \<Rightarrow> message) \<Rightarrow> store \<Rightarrow> addr \<Rightarrow> addr \<times> store" where
  "array_map f h a =
     (let xs = (case arrays h a of Some xs \<Rightarrow> xs | None \<Rightarrow> []);
          ys = map (\<lambda>(index, msg). f msg index) (enumerate 0 xs)
      in (next_addr h,
          h\<lparr>arrays := (arrays h)(next_addr h \<mapsto> ys), next_addr := Suc (next_addr h)\<rparr>))"

subsection \<open>Writer.updateMessageObject\<close>

definition relabel :: "message \<Rightarrow> nat \<Rightarrow> message" where
  "relabel msg index =
     (if index mod 2 = 0 then msg\<lparr>role := ''user''\<rparr> else msg\<lparr>role := ''assistant''\<rparr>)"

text \<open>
  \<open>messages\<close> is the caller's array itself (\<open>let { messages } = messageObject\<close> copies
  the reference). \<open>messages[0].role\<close> throws a TypeError when the array is empty or
  \<open>messages\<close> is not there; the second test guards \<open>messages[0]\<close> and does not throw.
\<close>

definition updateMessageObject ::
  "store \<Rightarrow> (addr, 'z) message_object_scheme \<Rightarrow>
   js_error + ((addr, 'z) message_object_scheme \<times> store)" where
  "updateMessageObject h messageObject =
     (let messages' = messages messageObject in
      case arrays h messages' of
        None \<Rightarrow> Inl (TypeError ''Cannot read properties of undefined (reading '0')'')
      | Some [] \<Rightarrow> Inl (TypeError ''Cannot read properties of undefined (reading 'role')'')
      | Some (m0 # _) \<Rightarrow>
          let h1 = (if role m0 = ''system'' \<and> content m0 = ''You are a helpful assistant.''
                    then shift h messages' else h);
              h2 = (case arrays h1 messages' of
                      Some (m # _) \<Rightarrow>
                        if role m = ''system''
                        then unshift h1 messages' \<lparr>role = ''user'', content = ''Hello!''\<rparr>
                        else h1
                    | _ \<Rightarrow> h1);
              (convertedMessages, h3) = array_map relabel h2 messages'
          in Inr (messageObject\<lparr>messages := convertedMessages\<rparr>, h3))"

text \<open>The messages of the object a call returns, read from the store it leaves.\<close>

definition result_messages ::
  "js_error + ((addr, 'z) message_object_scheme \<times> store) \<Rightarrow> message list option" where
  "result_messages r =
     (case r of Inl _ \<Rightarrow> None | Inr (obj, h) \<Rightarrow> arrays h (messages obj))"

text \<open>The caller's array after a call (the store is unchanged when the call throws).\<close>

definition caller_messages ::
  "store \<Rightarrow> addr \<Rightarrow> js_error + ((addr, 'z) message_object_scheme \<times> store) \<Rightarrow>
   message list option" where
  "caller_messages h a r =
     (case r of Inl _ \<Rightarrow> arrays h a | Inr (obj, h') \<Rightarrow> arrays h' a)"

definition greeting :: message where
  "greeting = \<lparr>role = ''system'', content = ''You are a helpful assistant.''\<rparr>"

definition hello :: message where
  "hello = \<lparr>role = ''user'', content = ''Hello!''\<rparr>"

definition relabel_all :: "message list \<Rightarrow> message list" where
  "relabel_all xs = map (\<lambda>(index, msg). relabel msg index) (enumerate 0 xs)"


section \<open>interfaces/gemini.js\<close>

subsection \<open>Gemini.convertDataStructure\<close>

record part =
  part_text :: string

text \<open>An entry of the chat history, \<open>{ role, parts: [{ text }] }\<close>; \<open>text\<close> is a keyword of
  Isabelle, so the field of a part is \<open>part_text\<close>. The role field of an entry is
  named \<open>entry_role\<close> here, \<open>role\<close> being the field of a message.\<close>

record history_entry =
  entry_role :: string
  parts :: "part list"

text \<open>\<open>generationConfig\<close> is an object with named knobs: a map from property names to
  values, so that the spread \<open>{ ...generationConfigOptions, maxOutputTokens: maxTokens }\<close>
  is a map update.\<close>

type_synonym js_object = "string \<rightharpoonup> jsval"

record converted =
  history :: "history_entry list"
  prompt :: string
  generationConfig :: js_object

text \<open>
  \<open>slice(0, -1)\<close> is \<open>butlast\<close>; \<open>input.messages[input.messages.length - 1].content\<close>
  reads a property of \<open>undefined\<close> when the list is empty, which throws a TypeError.
  \<open>...(responseFormat && { responseMimeType })\<close> adds the property when the string is
  not empty.
\<close>

definition convertDataStructure ::
  "(message list, 'z) message_object_scheme \<Rightarrow> number \<Rightarrow> string \<Rightarrow> js_object \<Rightarrow>
   js_error + converted" where
  "convertDataStructure input maxTokens responseFormat generationConfigOptions =
     (let history0 = map (\<lambda>message. \<lparr>entry_role = role message,
                                      parts = [\<lparr>part_text = content message\<rparr>]\<rparr>)
                         (butlast (messages input));
          history' = (if length history0 > 0 \<and> entry_role (history0 ! 0) \<noteq> ''user''
                      then history0[0 := (history0 ! 0)\<lparr>entry_role := ''user''\<rparr>]
                      else history0)
      in if messages input = []
         then Inl (TypeError ''Cannot read properties of undefined (reading 'content')'')
         else
           let prompt' = content (last (messages input));
               responseMimeType =
                 (if responseFormat = ''json_object'' then ''application/json'' else ''text/plain'');
               generationConfig0 = generationConfigOptions(''maxOutputTokens'' \<mapsto> JNum maxTokens);
               generationConfig' =
                 (if responseFormat \<noteq> []
                  then generationConfig0(''responseMimeType'' \<mapsto> JStr responseMimeType)
                  else generationConfig0)
           in Inr \<lparr>history = history', prompt = prompt', generationConfig = generationConfig'\<rparr>)"

subsection \<open>Options of a call\<close>

text \<open>\<open>options\<close>; a field is \<open>None\<close> when the caller left the property out. The model
  property is named \<open>options_model\<close> here, \<open>model\<close> being the field of a message
  object.\<close>

record options =
  options_model :: "string option"
  max_tokens :: "number option"
  response_format :: "string option"
  temperature :: "number option"
  topP :: "number option"
  topK :: "number option"

record interface_options_object =
  cacheTimeoutSeconds :: "number option"
  retryAttempts :: "int option"
  retryMultiplier :: "number option"

text \<open>\<open>interfaceOptions\<close> is a bare number or an object.\<close>

datatype interfaceOptions =
    IONumber number
  | IOObject interface_options_object

text \<open>\<open>a || b\<close> on an optional number, on an optional integer and on an optional
  string: the left operand when it is there and truthy, otherwise the right one.\<close>

definition or_number :: "number option \<Rightarrow> number \<Rightarrow> number" where
  "or_number a b = (case a of Some x \<Rightarrow> if x \<noteq> 0 then x else b | None \<Rightarrow> b)"

definition or_int :: "int option \<Rightarrow> int \<Rightarrow> int" where
  "or_int a b = (case a of Some x \<Rightarrow> if x \<noteq> 0 then x else b | None \<Rightarrow> b)"

definition or_string :: "string option \<Rightarrow> string \<Rightarrow> string" where
  "or_string a b = (case a of Some x \<Rightarrow> if x \<noteq> [] then x else b | None \<Rightarrow> b)"

text \<open>\<open>if (cacheTimeoutSeconds)\<close>.\<close>

definition truthy_number :: "number option \<Rightarrow> bool" where
  "truthy_number a = (case a of Some x \<Rightarrow> x \<noteq> 0 | None \<Rightarrow> False)"

text \<open>A property of \<open>interfaceOptions\<close>; reading a property of a number gives
  \<open>undefined\<close>.\<close>

definition io_cacheTimeoutSeconds :: "interfaceOptions \<Rightarrow> number option" where
  "io_cacheTimeoutSeconds io =
     (case io of IONumber n \<Rightarrow> Some n | IOObject obj \<Rightarrow> cacheTimeoutSeconds obj)"

definition io_retryAttempts :: "interfaceOptions \<Rightarrow> int option" where
  "io_retryAttempts io = (case io of IONumber n \<Rightarrow> None | IOObject obj \<Rightarrow> retryAttempts obj)"

definition io_retryMultiplier :: "interfaceOptions \<Rightarrow> number option" where
  "io_retryMultiplier io =
     (case io of IONumber n \<Rightarrow> None | IOObject obj \<Rightarrow> retryMultiplier obj)"

subsection \<open>The response cache\<close>

text \<open>Modelled from the spec: \<open>utils/cache.js\<close> (\<open>getFromCache\<close>, \<open>saveToCache\<close>) is not
  among the sources. The spec gives an entry a value and an expiry time, \<open>get(key)\<close> that
  answers the value or a miss and treats an entry as a miss when \<open>now > expiresAt\<close>
  without removing it, and \<open>put(key, value, ttlSeconds)\<close> that overwrites. A miss is
  \<open>null\<close>. Times are in milliseconds. \<open>value\<close> being a keyword, the value of an entry
  is \<open>cached\<close>.
\<close>

record cache_entry =
  cached :: jsval
  expiresAt :: number

type_synonym cache = "string \<rightharpoonup> cache_entry"

definition getFromCache :: "cache \<Rightarrow> number \<Rightarrow> string \<Rightarrow> jsval" where
  "getFromCache c t key =
     (case c key of
        None \<Rightarrow> JNull
      | Some e \<Rightarrow> if t > expiresAt e then JNull else cached e)"

definition saveToCache :: "cache \<Rightarrow> number \<Rightarrow> string \<Rightarrow> jsval \<Rightarrow> number \<Rightarrow> cache" where
  "saveToCache c t key v ttlSeconds = c(key \<mapsto> \<lparr>cached = v, expiresAt = t + ttlSeconds * 1000\<rparr>)"

subsection \<open>The collaborators of a call and the state it changes\<close>

text \<open>What goes to the provider, and what \<open>JSON.stringify\<close> turns into the cache key:
  \<open>{ model, history, prompt, generationConfig }\<close>.\<close>

record request = converted +
  request_model :: string

text \<open>
  What \<open>sendMessage\<close> calls and does not define:
  \<^item> \<open>provider n req\<close> is what the \<open>n\<close>-th invocation of the provider client gives for
    \<open>req\<close> (\<open>getGenerativeModel\<close>, \<open>startChat\<close>, \<open>chat.sendMessage\<close>, \<open>response.text()\<close>):
    the text, or the error one of them throws; \<open>latency n\<close> is the time it takes;
  \<^item> \<open>JSON_parse\<close> is \<open>JSON.parse\<close>, \<open>None\<close> where it throws a SyntaxError, and
    \<open>JSON_stringify\<close> is \<open>JSON.stringify\<close> on the object of the cache key;
  \<^item> \<open>returnMessageObject\<close> and \<open>returnModelByAlias\<close> are those of \<open>utils/utils.js\<close>,
    and \<open>default_model_name\<close> is \<open>config['gemini'].model.default.name\<close>.
\<close>

record env =
  provider :: "nat \<Rightarrow> request \<Rightarrow> js_error + string"
  latency :: "nat \<Rightarrow> number"
  JSON_parse :: "string \<Rightarrow> jsval option"
  JSON_stringify :: "request \<Rightarrow> string"
  returnMessageObject :: "string \<Rightarrow> message list message_object"
  returnModelByAlias :: "string \<Rightarrow> string option \<Rightarrow> string option"
  default_model_name :: string

text \<open>
  What a call can change or leave a trace in: the cache, the clock (milliseconds), the
  requests the provider was invoked with (in order), the delays given to \<open>setTimeout\<close>
  between attempts (in order), and what \<open>log.error\<close> was given.
\<close>

record world =
  cache :: cache
  now :: number
  invocations :: "request list"
  sleeps :: "double list"
  error_log :: "jsval list"

datatype message_input =
    MessageString string
  | MessageObject "message list message_object"

subsection \<open>Gemini.sendMessage\<close>

text \<open>
  The body of the \<open>try\<close> block: one invocation of the provider, the reshaping of its
  text under \<open>json_object\<close> with the inner \<open>try\<close>/\<open>catch\<close>, and the store in the cache.
  \<open>Inl\<close> is the error the outer \<open>catch\<close> receives.
\<close>

definition attempt ::
  "env \<Rightarrow> request \<Rightarrow> string \<Rightarrow> number option \<Rightarrow> string \<Rightarrow> world \<Rightarrow>
   (js_error + jsval) \<times> world" where
  "attempt e req cacheKey cacheTimeout responseFormat w =
     (let n = length (invocations w);
          w1 = w\<lparr>invocations := invocations w @ [req], now := now w + latency e n\<rparr>
      in case provider e n req of
           Inl error \<Rightarrow> (Inl error, w1)
         | Inr txt \<Rightarrow>
             let txt' = (if responseFormat = ''json_object''
                         then (case JSON_parse e txt of Some v \<Rightarrow> v | None \<Rightarrow> JNull)
                         else JStr txt);
                 w2 = (case cacheTimeout of
                         Some ttl \<Rightarrow>
                           if ttl \<noteq> 0 \<and> truthy txt'
                           then w1\<lparr>cache := saveToCache (cache w1) (now w1) cacheKey txt' ttl\<rparr>
                           else w1
                       | None \<Rightarrow> w1)
             in (Inr txt', w2))"

text \<open>\<open>log.error('Response data:', error.response ? error.response.data : null)\<close>.\<close>

definition log_error :: "world \<Rightarrow> js_error \<Rightarrow> world" where
  "log_error w error =
     w\<lparr>error_log := error_log w @
        [case error of ProviderError _ (Some d) \<Rightarrow> d | _ \<Rightarrow> JNull]\<rparr>"

text \<open>\<open>await new Promise((resolve) => setTimeout(resolve, delay))\<close>: the delay is
  recorded and the clock moves on by it (a delay that is negative, infinite or NaN is
  no delay: the timer fires at once).\<close>

definition sleep :: "world \<Rightarrow> double \<Rightarrow> world" where
  "sleep w delay =
     w\<lparr>sleeps := sleeps w @ [delay],
       now := now w + (case delay of Finite d \<Rightarrow> max 0 d | _ \<Rightarrow> 0)\<rparr>"

text \<open>
  The \<open>while (retryAttempts >= 0)\<close> loop with its two counters. A loop that is
  never entered falls off the end of the function, which returns \<open>undefined\<close>. The delay
  \<open>(currentRetry + 1) * retryMultiplier * 1000\<close> is two multiplications of doubles, from
  left to right; \<open>currentRetry + 1\<close> is a small integer, which doubles hold exactly.
\<close>

function retry_loop ::
  "env \<Rightarrow> interfaceOptions \<Rightarrow> request \<Rightarrow> string \<Rightarrow> number option \<Rightarrow> string \<Rightarrow>
   int \<Rightarrow> nat \<Rightarrow> world \<Rightarrow> outcome \<times> world" where
  "retry_loop e io req cacheKey cacheTimeout responseFormat retryAttempts' currentRetry w =
     (if retryAttempts' \<ge> 0 then
        (case attempt e req cacheKey cacheTimeout responseFormat w of
           (Inr txt, w1) \<Rightarrow> (Returned txt, w1)
         | (Inl error, w1) \<Rightarrow>
             if retryAttempts' - 1 < 0 then (Thrown error, log_error w1 error)
             else
               let retryMultiplier' = or_number (io_retryMultiplier io) double_0_3;
                   delay = times (times (Finite (of_nat currentRetry + 1))
                                        (Finite retryMultiplier')) (Finite 1000)
               in retry_loop e io req cacheKey cacheTimeout responseFormat
                    (retryAttempts' - 1) (currentRetry + 1) (sleep w1 delay))
      else (Returned JUndefined, w))"
  by pat_completeness auto
termination
  by (relation "measure (\<lambda>(e, io, req, cacheKey, cacheTimeout, responseFormat, r, c, w). nat (r + 1))")
     auto

definition sendMessage ::
  "env \<Rightarrow> message_input \<Rightarrow> options \<Rightarrow> interfaceOptions \<Rightarrow> world \<Rightarrow> outcome \<times> world" where
  "sendMessage e message opts io w =
     (let messageObject = (case message of
                             MessageString s \<Rightarrow> returnMessageObject e s
                           | MessageObject obj \<Rightarrow> obj);
          cacheTimeout = io_cacheTimeoutSeconds io;
          selectedModel = returnModelByAlias e ''gemini'' (model messageObject);
          maxTokens = (case max_tokens opts of Some n \<Rightarrow> n | None \<Rightarrow> 150);
          responseFormat = (case response_format opts of Some s \<Rightarrow> s | None \<Rightarrow> ''text/plain'');
          model' = or_string selectedModel (or_string (options_model opts) (default_model_name e))
      in case convertDataStructure messageObject maxTokens responseFormat
                [''temperature'' \<mapsto> JNum (or_number (temperature opts) 0.9),
                 ''topP'' \<mapsto> JNum (or_number (topP opts) 1),
                 ''topK'' \<mapsto> JNum (or_number (topK opts) 1)] of
           Inl error \<Rightarrow> (Thrown error, w)
         | Inr conv \<Rightarrow>
             let req = converted.extend conv (request.fields model');
                 cacheKey = JSON_stringify e req;
                 cachedResponse = (if truthy_number cacheTimeout
                                   then getFromCache (cache w) (now w) cacheKey
                                   else JUndefined)
             in if truthy_number cacheTimeout \<and> truthy cachedResponse
                then (Returned cachedResponse, w)
                else retry_loop e io req cacheKey cacheTimeout responseFormat
                       (or_int (io_retryAttempts io) 0) 0 w)"

subsection \<open>The first half of \<open>sendMessage\<close> on its own\<close>

text \<open>
  The lines of \<open>sendMessage\<close> before the cache lookup, as functions of the arguments, to
  name in the statements below what a call derives: the message object, the response
  format, and the request (the conversion may throw). Lemma \<open>sendMessage_request\<close>
  relates them to \<open>sendMessage\<close>.
\<close>

definition messageObject_of :: "env \<Rightarrow> message_input \<Rightarrow> message list message_object" where
  "messageObject_of e message =
     (case message of MessageString s \<Rightarrow> returnMessageObject e s | MessageObject obj \<Rightarrow> obj)"

definition response_format_of :: "options \<Rightarrow> string" where
  "response_format_of opts = (case response_format opts of Some s \<Rightarrow> s | None \<Rightarrow> ''text/plain'')"

definition generationConfigOptions_of :: "options \<Rightarrow> js_object" where
  "generationConfigOptions_of opts =
     [''temperature'' \<mapsto> JNum (or_number (temperature opts) 0.9),
      ''topP'' \<mapsto> JNum (or_number (topP opts) 1),
      ''topK'' \<mapsto> JNum (or_number (topK opts) 1)]"

definition request_of :: "env \<Rightarrow> message_input \<Rightarrow> options \<Rightarrow> js_error + request" where
  "request_of e message opts =
     (let messageObject = messageObject_of e message;
          selectedModel = returnModelByAlias e ''gemini'' (model messageObject);
          maxTokens = (case max_tokens opts of Some n \<Rightarrow> n | None \<Rightarrow> 150);
          model' = or_string selectedModel (or_string (options_model opts) (default_model_name e))
      in case convertDataStructure messageObject maxTokens (response_format_of opts)
                (generationConfigOptions_of opts) of
           Inl error \<Rightarrow> Inl error
         | Inr conv \<Rightarrow> Inr (converted.extend conv (request.fields model')))"

text \<open>A call finds its answer in the cache: caching is on for the call and the lookup
  of the key of the request gives a truthy value.\<close>

definition cache_hit :: "env \<Rightarrow> interfaceOptions \<Rightarrow> request \<Rightarrow> world \<Rightarrow> bool" where
  "cache_hit e io req w \<longleftrightarrow>
     truthy_number (io_cacheTimeoutSeconds io) \<and>
     truthy (getFromCache (cache w) (now w) (JSON_stringify e req))"

text \<open>The reshaping of the provider's text that the \<open>try\<close> block performs.\<close>

definition reshape :: "env \<Rightarrow> string \<Rightarrow> string \<Rightarrow> jsval" where
  "reshape e responseFormat txt =
     (if responseFormat = ''json_object''
      then (case JSON_parse e txt of Some v \<Rightarrow> v | None \<Rightarrow> JNull)
      else JStr txt)"

text \<open>The value of the JavaScript expression \<open>(i + 1) * m * 1000\<close> on doubles.\<close>

definition backoff :: "number \<Rightarrow> nat \<Rightarrow> double" where
  "backoff m i = times (times (Finite (of_nat i + 1)) (Finite m)) (Finite 1000)"

text \<open>Every value in the cache is truthy: what a cache that only \<open>sendMessage\<close> fills
  satisfies (lemma \<open>sendMessage_cache_truthy\<close>).\<close>

definition cache_truthy :: "cache \<Rightarrow> bool" where
  "cache_truthy c \<longleftrightarrow> (\<forall>key entry. c key = Some entry \<longrightarrow> truthy (cached entry))"

text \<open>The roles of a message sequence alternate \<open>user\<close>, \<open>assistant\<close>, \<open>user\<close>, ... from
  index 0.\<close>

definition alternates :: "string list \<Rightarrow> bool" where
  "alternates rs \<longleftrightarrow>
     (\<forall>i < length rs. rs ! i = (if i mod 2 = 0 then ''user'' else ''assistant''))"

subsection \<open>A stub adapter and concrete inputs\<close>

text \<open>
  A provider stub that answers from a given table of outcomes whatever the request,
  takes 20 ms for each invocation, and parses the two texts of the examples. Modelled
  from the spec: \<open>returnMessageObject\<close> wraps a bare string into a single \<open>user\<close>
  message.
\<close>

definition stub_parse :: "string \<Rightarrow> jsval option" where
  \<open>stub_parse s =
     (if s = ''[{"reason":"a"}]'' then Some (JArr [JObj [(''reason'', JStr ''a'')]])
      else if s = ''null'' then Some JNull
      else None)\<close>

definition stub_env :: "(nat \<Rightarrow> js_error + string) \<Rightarrow> env" where
  "stub_env outcomes =
     \<lparr>provider = (\<lambda>n req. outcomes n),
      latency = (\<lambda>n. 20),
      JSON_parse = stub_parse,
      JSON_stringify = (\<lambda>req. request_model req @ ''|'' @ prompt req),
      returnMessageObject = (\<lambda>s. \<lparr>model = None, messages = [\<lparr>role = ''user'', content = s\<rparr>]\<rparr>),
      returnModelByAlias = (\<lambda>interfaceName alias. None),
      default_model_name = ''gemini-1.5-flash''\<rparr>"

definition unavailable :: js_error where
  "unavailable = ProviderError ''503 Service Unavailable'' None"

definition world0 :: world where
  "world0 = \<lparr>cache = Map.empty, now = 0, invocations = [], sleeps = [], error_log = []\<rparr>"

definition no_options :: options where
  "no_options = \<lparr>options_model = None, max_tokens = None, response_format = None,
                  temperature = None, topP = None, topK = None\<rparr>"

definition no_interface_options :: interface_options_object where
  "no_interface_options =
     \<lparr>cacheTimeoutSeconds = None, retryAttempts = None, retryMultiplier = None\<rparr>"

definition store0 :: "message list \<Rightarrow> store" where
  "store0 ms = \<lparr>arrays = [0 \<mapsto> ms], next_addr = 1\<rparr>"

definition object0 :: "addr message_object" where
  "object0 = \<lparr>model = None, messages = 0\<rparr>"


section \<open>Properties\<close>

subsection \<open>The retry loop\<close>

declare retry_loop.simps [simp del]

declare bit_length.simps [simp del]

lemma double_0_3_nearest: "nearest_double (3 / 10) = Finite double_0_3"
  by code_simp

text \<open>Rounding at work: a value that is not a double, ties to the even neighbour, and
  \<open>0.1 * 3\<close>, which is 0.30000000000000004.\<close>

lemma nearest_double_examples:
  "nearest_double (1 / 10) = Finite (3602879701896397 / 2 ^ 55)"
  "nearest_double (- 1 / 3) = Finite (- 6004799503160661 / 2 ^ 54)"
  "nearest_double (2 ^ 53 + 1) = Finite (2 ^ 53)"
  "nearest_double (2 ^ 53 + 3) = Finite (2 ^ 53 + 4)"
  "times (Finite (3602879701896397 / 2 ^ 55)) (Finite 3) = Finite (5404319552844596 / 2 ^ 54)"
  by code_simp+



lemma attempt_fail:
  "provider e (length (invocations w)) req = Inl err \<Longrightarrow>
   attempt e req key cts rf w =
     (Inl err, w\<lparr>invocations := invocations w @ [req],
                 now := now w + latency e (length (invocations w))\<rparr>)"
  by (simp add: attempt_def Let_def)

lemma attempt_invocations:
  "invocations (snd (attempt e req key cts rf w)) = invocations w @ [req]"
  by (simp add: attempt_def Let_def split: sum.splits option.splits)

lemma attempt_sleeps:
  "sleeps (snd (attempt e req key cts rf w)) = sleeps w"
  by (simp add: attempt_def Let_def split: sum.splits option.splits)

lemma attempt_error_log:
  "error_log (snd (attempt e req key cts rf w)) = error_log w"
  by (simp add: attempt_def Let_def split: sum.splits option.splits)

lemma attempt_ok_fst:
  "provider e (length (invocations w)) req = Inr raw \<Longrightarrow>
   fst (attempt e req key cts rf w) =
     Inr (if rf = ''json_object''
          then (case JSON_parse e raw of Some v \<Rightarrow> v | None \<Rightarrow> JNull)
          else JStr raw)"
  by (simp add: attempt_def Let_def)

lemma attempt_fst_cases:
  "fst (attempt e req key cts rf w) =
     (case provider e (length (invocations w)) req of
        Inl err \<Rightarrow> Inl err
      | Inr raw \<Rightarrow> Inr (if rf = ''json_object''
          then (case JSON_parse e raw of Some v \<Rightarrow> v | None \<Rightarrow> JNull)
          else JStr raw))"
  by (simp add: attempt_def Let_def split: sum.splits)

lemma attempt_cache:
  "attempt e req key cts rf w = (r, w') \<Longrightarrow>
   cache w' = cache w \<or>
   (\<exists>ttl v. cts = Some ttl \<and> ttl \<noteq> 0 \<and> r = Inr v \<and> truthy v \<and>
      cache w' = saveToCache (cache w) (now w + latency e (length (invocations w))) key v ttl)"
  by (auto simp add: attempt_def Let_def split: sum.splits option.splits if_splits)


lemma retry_loop_negative:
  "r < 0 \<Longrightarrow> retry_loop e io req key cts rf r c w = (Returned JUndefined, w)"
  by (subst retry_loop.simps) simp

lemma retry_loop_Inr:
  "0 \<le> r \<Longrightarrow> attempt e req key cts rf w = (Inr v, w1) \<Longrightarrow>
   retry_loop e io req key cts rf r c w = (Returned v, w1)"
  by (subst retry_loop.simps) simp

lemma retry_loop_last:
  "r = 0 \<Longrightarrow> attempt e req key cts rf w = (Inl err, w1) \<Longrightarrow>
   retry_loop e io req key cts rf r c w = (Thrown err, log_error w1 err)"
  by (subst retry_loop.simps) simp

lemma retry_loop_retry:
  "0 < r \<Longrightarrow> attempt e req key cts rf w = (Inl err, w1) \<Longrightarrow>
   retry_loop e io req key cts rf r c w =
     retry_loop e io req key cts rf (r - 1) (c + 1)
       (sleep w1 (backoff (or_number (io_retryMultiplier io) double_0_3) c))"
  by (subst retry_loop.simps) (simp add: Let_def backoff_def)

lemma retry_loop_all_fail:
  assumes "\<forall>j\<le>k. provider e (length (invocations w) + j) req = Inl (errs j)"
  shows "fst (retry_loop e io req key cts rf (int k) c w) = Thrown (errs k) \<and>
         invocations (snd (retry_loop e io req key cts rf (int k) c w)) =
           invocations w @ replicate (Suc k) req \<and>
         sleeps (snd (retry_loop e io req key cts rf (int k) c w)) =
           sleeps w @ map (\<lambda>i. backoff (or_number (io_retryMultiplier io) double_0_3) (c + i)) [0..<k] \<and>
         cache (snd (retry_loop e io req key cts rf (int k) c w)) = cache w"
  using assms
proof (induction k arbitrary: c w errs)
  case 0
  then have "provider e (length (invocations w)) req = Inl (errs 0)" by simp
  from retry_loop_last[OF _ attempt_fail[OF this], where r=0 and io=io and c=c and key=key and cts=cts and rf=rf]
  show ?case by (simp add: log_error_def)
next
  case (Suc k)
  from Suc.prems have p0: "provider e (length (invocations w)) req = Inl (errs 0)"
    by (metis add.right_neutral le0)
  define w1 where "w1 = w\<lparr>invocations := invocations w @ [req],
                 now := now w + latency e (length (invocations w))\<rparr>"
  define d where "d = backoff (or_number (io_retryMultiplier io) double_0_3) c"
  define w2 where "w2 = sleep w1 d"
  have step: "retry_loop e io req key cts rf (int (Suc k)) c w =
              retry_loop e io req key cts rf (int k) (c + 1) w2"
    using retry_loop_retry[OF _ attempt_fail[OF p0], where r="int (Suc k)" and io=io and c=c and key=key and cts=cts and rf=rf]
    by (simp add: w1_def w2_def d_def)
  have inv2: "invocations w2 = invocations w @ [req]" "sleeps w2 = sleeps w @ [d]" "cache w2 = cache w"
    by (simp_all add: w2_def w1_def sleep_def)
  have "\<forall>j\<le>k. provider e (length (invocations w2) + j) req = Inl ((errs \<circ> Suc) j)"
  proof (intro allI impI)
    fix j assume "j \<le> k"
    then have "Suc j \<le> Suc k" by simp
    with Suc.prems have "provider e (length (invocations w) + Suc j) req = Inl (errs (Suc j))"
      by blast
    then show "provider e (length (invocations w2) + j) req = Inl ((errs \<circ> Suc) j)"
      by (simp add: inv2)
  qed
  from Suc.IH[OF this, of "c + 1"] show ?case
    unfolding step by (simp add: inv2 d_def map_upt_Suc replicate_app_Cons_same del: upt_Suc)
qed

lemma retry_loop_first_success:
  assumes "\<forall>j<k. provider e (length (invocations w) + j) req = Inl (errs j)"
    and "provider e (length (invocations w) + k) req = Inr raw"
    and "int k \<le> r"
  shows "fst (retry_loop e io req key cts rf r c w) =
           Returned (if rf = ''json_object''
                     then (case JSON_parse e raw of Some v \<Rightarrow> v | None \<Rightarrow> JNull)
                     else JStr raw) \<and>
         invocations (snd (retry_loop e io req key cts rf r c w)) =
           invocations w @ replicate (Suc k) req \<and>
         sleeps (snd (retry_loop e io req key cts rf r c w)) =
           sleeps w @ map (\<lambda>i. backoff (or_number (io_retryMultiplier io) double_0_3) (c + i)) [0..<k] \<and>
         error_log (snd (retry_loop e io req key cts rf r c w)) = error_log w"
  using assms
proof (induction k arbitrary: r c w errs)
  case 0
  then have p0: "provider e (length (invocations w)) req = Inr raw" and r: "0 \<le> r" by simp_all
  obtain x w1 where a: "attempt e req key cts rf w = (x, w1)" by (cases "attempt e req key cts rf w")
  have x: "x = Inr (if rf = ''json_object''
                     then (case JSON_parse e raw of Some v \<Rightarrow> v | None \<Rightarrow> JNull)
                     else JStr raw)"
    using attempt_ok_fst[OF p0, of key cts rf] a by simp
  have w1: "invocations w1 = invocations w @ [req]" "sleeps w1 = sleeps w" "error_log w1 = error_log w"
    using attempt_invocations[of e req key cts rf w] attempt_sleeps[of e req key cts rf w]
      attempt_error_log[of e req key cts rf w] a by simp_all
  from retry_loop_Inr[OF r a[unfolded x], where io=io and c=c] show ?case by (simp add: w1)
next
  case (Suc k)
  from Suc.prems(1) have p0: "provider e (length (invocations w)) req = Inl (errs 0)"
    by (metis add.right_neutral zero_less_Suc)
  from Suc.prems(3) have r: "0 < r" "int k \<le> r - 1" by simp_all
  define w1 where "w1 = w\<lparr>invocations := invocations w @ [req],
                 now := now w + latency e (length (invocations w))\<rparr>"
  define d where "d = backoff (or_number (io_retryMultiplier io) double_0_3) c"
  define w2 where "w2 = sleep w1 d"
  have step: "retry_loop e io req key cts rf r c w =
              retry_loop e io req key cts rf (r - 1) (c + 1) w2"
    using retry_loop_retry[OF r(1) attempt_fail[OF p0], where io=io and c=c and key=key and cts=cts and rf=rf]
    by (simp add: w1_def w2_def d_def)
  have inv2: "invocations w2 = invocations w @ [req]" "sleeps w2 = sleeps w @ [d]"
    "error_log w2 = error_log w"
    by (simp_all add: w2_def w1_def sleep_def)
  have a: "\<forall>j<k. provider e (length (invocations w2) + j) req = Inl ((errs \<circ> Suc) j)"
  proof (intro allI impI)
    fix j assume "j < k"
    then have "Suc j < Suc k" by simp
    with Suc.prems(1) have "provider e (length (invocations w) + Suc j) req = Inl (errs (Suc j))"
      by blast
    then show "provider e (length (invocations w2) + j) req = Inl ((errs \<circ> Suc) j)"
      by (simp add: inv2)
  qed
  have b: "provider e (length (invocations w2) + k) req = Inr raw"
    using Suc.prems(2) by (simp add: inv2)
  from Suc.IH[OF a b r(2), of "c + 1"] show ?case
    unfolding step by (simp add: inv2 d_def map_upt_Suc replicate_app_Cons_same del: upt_Suc)
qed


lemma retry_loop_cache:
  "cache (snd (retry_loop e io req key cts rf r c w)) = cache w \<or>
   (\<exists>ttl v t. cts = Some ttl \<and> ttl \<noteq> 0 \<and>
      fst (retry_loop e io req key cts rf r c w) = Returned v \<and> truthy v \<and>
      cache (snd (retry_loop e io req key cts rf r c w)) = saveToCache (cache w) t key v ttl)"
proof (induction "nat r" arbitrary: r c w)
  case 0
  show ?case
  proof (cases "r < 0")
    case True
    then show ?thesis by (simp add: retry_loop_negative)
  next
    case False
    with 0 have r: "r = 0" by simp
    obtain x w1 where a: "attempt e req key cts rf w = (x, w1)" by (cases "attempt e req key cts rf w")
    show ?thesis
    proof (cases x)
      case (Inr v)
      from retry_loop_Inr[OF _ a[unfolded Inr], where r=r and io=io and c=c] r attempt_cache[OF a] Inr
      show ?thesis by auto
    next
      case (Inl err)
      from retry_loop_last[OF r a[unfolded Inl], where io=io and c=c] attempt_cache[OF a] Inl
      show ?thesis by (auto simp: log_error_def)
    qed
  qed
next
  case (Suc n)
  then have r: "0 < r" "n = nat (r - 1)" by simp_all
  obtain x w1 where a: "attempt e req key cts rf w = (x, w1)" by (cases "attempt e req key cts rf w")
  show ?case
  proof (cases x)
    case (Inr v)
    from retry_loop_Inr[OF _ a[unfolded Inr], where r=r and io=io and c=c] r attempt_cache[OF a] Inr
    show ?thesis by auto
  next
    case (Inl err)
    define d where "d = backoff (or_number (io_retryMultiplier io) double_0_3) c"
    define w2 where "w2 = sleep w1 d"
    have step: "retry_loop e io req key cts rf r c w =
              retry_loop e io req key cts rf (r - 1) (c + 1) w2"
      using retry_loop_retry[OF r(1) a[unfolded Inl], where io=io and c=c] by (simp add: d_def w2_def)
    from attempt_cache[OF a] Inl have "cache w2 = cache w" by (auto simp: w2_def sleep_def)
    with Suc.hyps(1)[OF r(2), of "c + 1" w2] show ?thesis unfolding step by simp
  qed
qed

lemma retry_loop_invocations:
  "\<exists>n. invocations (snd (retry_loop e io req key cts rf r c w)) = invocations w @ replicate n req \<and>
       (0 \<le> r \<longrightarrow> 0 < n)"
proof (induction "nat r" arbitrary: r c w)
  case 0
  show ?case
  proof (cases "r < 0")
    case True
    then show ?thesis by (simp add: retry_loop_negative)
  next
    case False
    with 0 have r: "r = 0" by simp
    obtain x w1 where a: "attempt e req key cts rf w = (x, w1)" by (cases "attempt e req key cts rf w")
    have w1: "invocations w1 = invocations w @ replicate 1 req"
      using attempt_invocations[of e req key cts rf w] a by simp
    show ?thesis
    proof (cases x)
      case (Inr v)
      from retry_loop_Inr[OF _ a[unfolded Inr], where r=r and io=io and c=c] r w1
      show ?thesis by (intro exI[of _ 1]) simp
    next
      case (Inl err)
      from retry_loop_last[OF r a[unfolded Inl], where io=io and c=c] w1
      show ?thesis by (intro exI[of _ 1]) (simp add: log_error_def)
    qed
  qed
next
  case (Suc k)
  then have r: "0 < r" "k = nat (r - 1)" by simp_all
  obtain x w1 where a: "attempt e req key cts rf w = (x, w1)" by (cases "attempt e req key cts rf w")
  have w1: "invocations w1 = invocations w @ replicate 1 req"
    using attempt_invocations[of e req key cts rf w] a by simp
  show ?case
  proof (cases x)
    case (Inr v)
    from retry_loop_Inr[OF _ a[unfolded Inr], where r=r and io=io and c=c] r w1
    show ?thesis by (intro exI[of _ 1]) simp
  next
    case (Inl err)
    define w2 where "w2 = sleep w1 (backoff (or_number (io_retryMultiplier io) double_0_3) c)"
    have step: "retry_loop e io req key cts rf r c w =
              retry_loop e io req key cts rf (r - 1) (c + 1) w2"
      using retry_loop_retry[OF r(1) a[unfolded Inl], where io=io and c=c] by (simp add: w2_def)
    have s: "invocations w2 = invocations w @ replicate 1 req"
      by (simp add: sleep_def w1 w2_def)
    from Suc.hyps(1)[OF r(2), of "c + 1" w2] obtain n where
      n: "invocations (snd (retry_loop e io req key cts rf (r - 1) (c + 1) w2)) =
            invocations w2 @ replicate n req"
      by blast
    have "invocations (snd (retry_loop e io req key cts rf r c w)) =
            invocations w @ replicate (Suc n) req"
      unfolding step n s by (simp add: replicate_app_Cons_same)
    then show ?thesis by (intro exI[of _ "Suc n"]) simp
  qed
qed

subsection \<open>From the loop to \<open>sendMessage\<close>\<close>

lemma sendMessage_request:
  "sendMessage e message opts io w =
     (case request_of e message opts of
        Inl error \<Rightarrow> (Thrown error, w)
      | Inr req \<Rightarrow>
          if cache_hit e io req w
          then (Returned (getFromCache (cache w) (now w) (JSON_stringify e req)), w)
          else retry_loop e io req (JSON_stringify e req) (io_cacheTimeoutSeconds io)
                 (response_format_of opts) (or_int (io_retryAttempts io) 0) 0 w)"
  by (simp add: sendMessage_def request_of_def messageObject_of_def response_format_of_def
      generationConfigOptions_of_def cache_hit_def Let_def split: sum.splits)

lemma sendMessage_miss:
  "request_of e message opts = Inr req \<Longrightarrow> \<not> cache_hit e io req w \<Longrightarrow>
   sendMessage e message opts io w =
     retry_loop e io req (JSON_stringify e req) (io_cacheTimeoutSeconds io)
       (response_format_of opts) (or_int (io_retryAttempts io) 0) 0 w"
  by (simp add: sendMessage_request)

lemma sendMessage_hit:
  "request_of e message opts = Inr req \<Longrightarrow> cache_hit e io req w \<Longrightarrow>
   sendMessage e message opts io w =
     (Returned (getFromCache (cache w) (now w) (JSON_stringify e req)), w)"
  by (simp add: sendMessage_request)

lemma sendMessage_throws:
  "request_of e message opts = Inl error \<Longrightarrow> sendMessage e message opts io w = (Thrown error, w)"
  by (simp add: sendMessage_request)

lemma world0_simps:
  "cache world0 = Map.empty" "now world0 = 0" "invocations world0 = []" "sleeps world0 = []"
  "error_log world0 = []"
  by (simp_all add: world0_def)

lemma request_of_projr:
  "messages (messageObject_of e message) \<noteq> [] \<Longrightarrow>
   request_of e message opts = Inr (projr (request_of e message opts))"
  by (simp add: request_of_def convertDataStructure_def Let_def)

lemma stub_string_request:
  "request_of (stub_env outcomes) (MessageString s) opts =
     Inr (projr (request_of (stub_env outcomes) (MessageString s) opts))"
  by (rule request_of_projr) (simp add: messageObject_of_def stub_env_def)


lemma attempt_cache_truthy:
  "cache_truthy (cache w) \<Longrightarrow> cache_truthy (cache (snd (attempt e req key cts rf w)))"
  by (auto simp: attempt_def Let_def cache_truthy_def saveToCache_def split: sum.splits option.splits)

lemma retry_loop_cache_truthy:
  assumes "cache_truthy (cache w)"
  shows "cache_truthy (cache (snd (retry_loop e io req key cts rf r c w)))"
  using retry_loop_cache[of e io req key cts rf r c w] assms
  by (auto simp: cache_truthy_def saveToCache_def split: if_splits)

lemma sendMessage_cache_truthy:
  assumes "cache_truthy (cache w)"
  shows "cache_truthy (cache (snd (sendMessage e message opts io w)))"
  using assms
  by (auto simp: sendMessage_request retry_loop_cache_truthy split: sum.splits)

lemma convertDataStructure_empty:
  "messages input = [] \<Longrightarrow>
   convertDataStructure input maxTokens responseFormat generationConfigOptions =
     Inl (TypeError ''Cannot read properties of undefined (reading 'content')'')"
  by (simp add: convertDataStructure_def)

lemma convertDataStructure_history:
  assumes "messages input \<noteq> []"
  shows "\<exists>conv. convertDataStructure input maxTokens responseFormat generationConfigOptions = Inr conv \<and>
           prompt conv = content (last (messages input)) \<and>
           history conv =
             (case butlast (messages input) of
                [] \<Rightarrow> []
              | m # ms \<Rightarrow> \<lparr>entry_role = ''user'', parts = [\<lparr>part_text = content m\<rparr>]\<rparr> #
                         map (\<lambda>message. \<lparr>entry_role = role message,
                                          parts = [\<lparr>part_text = content message\<rparr>]\<rparr>) ms)"
  using assms
  by (cases "butlast (messages input)") (auto simp: convertDataStructure_def Let_def)

lemma convertDataStructure_entries:
  assumes ne: "messages obj \<noteq> []"
  shows "\<exists>conv. convertDataStructure obj maxTokens responseFormat generationConfigOptions = Inr conv \<and>
         prompt conv = content (last (messages obj)) \<and>
         length (history conv) = length (messages obj) - 1 \<and>
         (\<forall>i < length (history conv).
            parts (history conv ! i) = [\<lparr>part_text = content (messages obj ! i)\<rparr>] \<and>
            entry_role (history conv ! i) = (if i = 0 then ''user'' else role (messages obj ! i)))"
proof -
  from convertDataStructure_history[OF ne, of maxTokens responseFormat generationConfigOptions]
  obtain conv where c: "convertDataStructure obj maxTokens responseFormat generationConfigOptions = Inr conv"
    "prompt conv = content (last (messages obj))"
    "history conv =
             (case butlast (messages obj) of
                [] \<Rightarrow> []
              | m # ms \<Rightarrow> \<lparr>entry_role = ''user'', parts = [\<lparr>part_text = content m\<rparr>]\<rparr> #
                         map (\<lambda>message. \<lparr>entry_role = role message,
                                          parts = [\<lparr>part_text = content message\<rparr>]\<rparr>) ms)"
    by blast
  have "length (history conv) = length (butlast (messages obj))"
    using c(3) by (cases "butlast (messages obj)") simp_all
  then have len: "length (history conv) = length (messages obj) - 1"
    by simp
  have nth: "parts (history conv ! i) = [\<lparr>part_text = content (messages obj ! i)\<rparr>] \<and>
            entry_role (history conv ! i) = (if i = 0 then ''user'' else role (messages obj ! i))"
    if "i < length (history conv)" for i
  proof (cases "butlast (messages obj)")
    case Nil
    with c(3) that show ?thesis by simp
  next
    case (Cons m ms)
    from that len have i: "i < length (butlast (messages obj))" by simp
    then have eq: "messages obj ! i = butlast (messages obj) ! i" by (simp add: nth_butlast)
    show ?thesis
    proof (cases i)
      case 0
      then show ?thesis using c(3) Cons eq by simp
    next
      case (Suc j)
      with i Cons have "j < length ms" by simp
      then show ?thesis using c(3) Cons eq Suc by simp
    qed
  qed
  from c(1,2) len nth show ?thesis by blast
qed

subsection \<open>Writer.updateMessageObject\<close>

lemma updateMessageObject_result:
  assumes "arrays h (messages obj) = Some (m0 # ms)"
  shows "result_messages (updateMessageObject h obj) =
           Some (relabel_all
             (let xs = (if m0 = greeting then ms else m0 # ms)
              in case xs of [] \<Rightarrow> [] | m # _ \<Rightarrow> if role m = ''system'' then hello # xs else xs))"
  using assms
  by (auto simp: updateMessageObject_def result_messages_def shift_def unshift_def
      array_map_def relabel_all_def greeting_def hello_def Let_def
      split: list.splits option.splits)


lemma length_relabel_all: "length (relabel_all xs) = length xs"
  by (simp add: relabel_all_def)

lemma relabel_all_nth:
  "i < length xs \<Longrightarrow>
   relabel_all xs ! i = relabel (xs ! i) i"
  by (simp add: relabel_all_def nth_enumerate_eq)

lemma relabel_all_content: "map content (relabel_all xs) = map content xs"
  by (rule nth_equalityI) (simp_all add: length_relabel_all relabel_all_nth relabel_def)

lemma relabel_all_alternates: "alternates (map role (relabel_all xs))"
  by (simp add: alternates_def length_relabel_all relabel_all_nth relabel_def)

lemma updateMessageObject_result_ex:
  assumes "arrays h (messages obj) = Some (m0 # ms)"
  shows "\<exists>xs. result_messages (updateMessageObject h obj) = Some (relabel_all xs)"
  unfolding updateMessageObject_result[OF assms] by blast

lemma updateMessageObject_caller:
  assumes "arrays h (messages obj) = Some (m0 # ms)" and "messages obj < next_addr h"
  shows "caller_messages h (messages obj) (updateMessageObject h obj) =
           Some (let xs = (if m0 = greeting then ms else m0 # ms)
                 in case xs of [] \<Rightarrow> [] | m # _ \<Rightarrow> if role m = ''system'' then hello # xs else xs)"
  using assms
  by (auto simp: updateMessageObject_def caller_messages_def shift_def unshift_def
      array_map_def greeting_def hello_def Let_def
      split: list.splits option.splits)

subsection \<open>The generation parameters of a request\<close>

lemma request_generationConfig:
  assumes "request_of e message opts = Inr req"
  shows "generationConfig req ''temperature'' = Some (JNum (or_number (temperature opts) 0.9))"
    and "generationConfig req ''topP'' = Some (JNum (or_number (topP opts) 1))"
    and "generationConfig req ''topK'' = Some (JNum (or_number (topK opts) 1))"
    and "generationConfig req ''maxOutputTokens'' =
           Some (JNum (case max_tokens opts of Some n \<Rightarrow> n | None \<Rightarrow> 150))"
  using assms
  by (auto simp: request_of_def convertDataStructure_def generationConfigOptions_of_def
      converted.defs request.defs Let_def split: if_splits)


section \<open>The claims\<close>

text \<open>
  C1. With \<open>retryAttempts = N\<close> (\<open>N = 0\<close> when the option is left out) and a call that
  reaches the provider (the conversion does not throw and the cache does not answer):
  when the provider fails on each of the attempts \<open>0, ..., N\<close> with the errors
  \<open>errs 0, ..., errs N\<close>, \<open>sendMessage\<close> invokes it \<open>N + 1\<close> times and throws the last
  error \<open>errs N\<close>; when attempt \<open>k \<le> N\<close> is the first to succeed, \<open>sendMessage\<close> invokes
  the provider \<open>k + 1\<close> times, returns the reshaped text of that attempt, and invokes
  nothing after it.
\<close>

theorem sendMessage_attempts:
  assumes "request_of e message opts = Inr req"
    and "\<not> cache_hit e io req w"
    and "io_retryAttempts io = Some (int N) \<or> io_retryAttempts io = None \<and> N = 0"
  shows "((\<forall>j\<le>N. provider e (length (invocations w) + j) req = Inl (errs j)) \<longrightarrow>
            fst (sendMessage e message opts io w) = Thrown (errs N) \<and>
            invocations (snd (sendMessage e message opts io w)) =
              invocations w @ replicate (N + 1) req) \<and>
         (\<forall>k\<le>N. (\<forall>j<k. provider e (length (invocations w) + j) req = Inl (errs j)) \<and>
                  provider e (length (invocations w) + k) req = Inr raw \<longrightarrow>
            fst (sendMessage e message opts io w) =
              Returned (reshape e (response_format_of opts) raw) \<and>
            invocations (snd (sendMessage e message opts io w)) =
              invocations w @ replicate (k + 1) req)"
proof -
  from assms(3) have N: "or_int (io_retryAttempts io) 0 = int N"
    by (auto simp: or_int_def)
  show ?thesis
    unfolding sendMessage_miss[OF assms(1,2)] N
    using retry_loop_all_fail[where e=e and w=w and req=req and k=N and errs=errs]
      retry_loop_first_success[where e=e and w=w and req=req and r="int N" and errs=errs and raw=raw]
    by (auto simp: reshape_def)
qed

theorem sendMessage_attempts_witness:
  "fst (sendMessage (stub_env (\<lambda>n. Inl unavailable)) (MessageString ''Hi'') no_options
          (IOObject (no_interface_options\<lparr>retryAttempts := Some 2\<rparr>)) world0) = Thrown unavailable \<and>
   length (invocations (snd (sendMessage (stub_env (\<lambda>n. Inl unavailable)) (MessageString ''Hi'')
          no_options (IOObject (no_interface_options\<lparr>retryAttempts := Some 2\<rparr>)) world0))) = 3"
proof -
  have miss: "\<not> cache_hit (stub_env (\<lambda>n. Inl unavailable))
      (IOObject (no_interface_options\<lparr>retryAttempts := Some 2\<rparr>)) req world0" for req
    by (simp add: cache_hit_def io_cacheTimeoutSeconds_def no_interface_options_def truthy_number_def)
  from sendMessage_attempts[OF stub_string_request miss, where N=2 and errs="\<lambda>j. unavailable"]
  show ?thesis
    by (simp add: io_retryAttempts_def no_interface_options_def stub_env_def world0_def)
qed




text \<open>
  C3. When caching is on for the call (a non-zero \<open>cacheTimeoutSeconds\<close>, as a bare number
  or as a property) and the cache holds, under the key of the request, an entry that has
  not expired, \<open>sendMessage\<close> returns the value of the entry and leaves everything as it
  was: no invocation of the provider, no delay, no log, no store. The cache is one that
  \<open>sendMessage\<close> filled, which only stores truthy values
  (lemma \<open>sendMessage_cache_truthy\<close>).
\<close>

theorem sendMessage_cached:
  assumes "request_of e message opts = Inr req"
    and "io_cacheTimeoutSeconds io = Some ttl" and "ttl \<noteq> 0"
    and "cache w (JSON_stringify e req) = Some entry" and "now w \<le> expiresAt entry"
    and "cache_truthy (cache w)"
  shows "sendMessage e message opts io w = (Returned (cached entry), w)"
proof -
  have g: "getFromCache (cache w) (now w) (JSON_stringify e req) = cached entry"
    using assms(4,5) by (simp add: getFromCache_def)
  have "truthy (cached entry)" using assms(4,6) by (auto simp: cache_truthy_def)
  then have "cache_hit e io req w"
    using assms(2,3) g by (simp add: cache_hit_def truthy_number_def)
  from sendMessage_hit[OF assms(1) this] g show ?thesis by simp
qed

theorem sendMessage_cached_witness:
  "sendMessage (stub_env (\<lambda>n. Inr ''Gravity pulls.'')) (MessageString ''Explain gravity'')
      no_options (IONumber 60)
      (snd (sendMessage (stub_env (\<lambda>n. Inr ''Gravity pulls.'')) (MessageString ''Explain gravity'')
              no_options (IONumber 60) world0)) =
     (Returned (JStr ''Gravity pulls.''),
      snd (sendMessage (stub_env (\<lambda>n. Inr ''Gravity pulls.'')) (MessageString ''Explain gravity'')
              no_options (IONumber 60) world0)) \<and>
   length (invocations (snd (sendMessage (stub_env (\<lambda>n. Inr ''Gravity pulls.''))
              (MessageString ''Explain gravity'') no_options (IONumber 60) world0))) = 1"
proof -
  define e where "e = stub_env (\<lambda>n. Inr ''Gravity pulls.'')"
  define w1 where "w1 = snd (sendMessage e (MessageString ''Explain gravity'') no_options (IONumber 60) world0)"
  define req where "req = projr (request_of e (MessageString ''Explain gravity'') no_options)"
  have r: "request_of e (MessageString ''Explain gravity'') no_options = Inr req"
    unfolding req_def e_def by (rule stub_string_request)
  have ttl: "io_cacheTimeoutSeconds (IONumber 60) = Some 60" "(60::rat) \<noteq> 0"
    by (simp_all add: io_cacheTimeoutSeconds_def)
  have c: "cache w1 (JSON_stringify e req) = Some \<lparr>cached = JStr ''Gravity pulls.'', expiresAt = 60020\<rparr>"
    unfolding w1_def req_def e_def by code_simp
  have t: "now w1 \<le> expiresAt \<lparr>cached = JStr ''Gravity pulls.'', expiresAt = 60020\<rparr>"
    unfolding w1_def e_def by code_simp
  have "cache_truthy (cache world0)" by (simp add: cache_truthy_def world0_def)
  then have inv: "cache_truthy (cache w1)" unfolding w1_def by (rule sendMessage_cache_truthy)
  have n: "length (invocations w1) = 1" unfolding w1_def e_def by code_simp
  from sendMessage_cached[OF r ttl c t inv] n show ?thesis
    unfolding w1_def e_def by simp
qed

text \<open>
  C4. A call changes the cache by one store at most, and only when a non-zero
  \<open>cacheTimeoutSeconds\<close> was supplied and the value it returns is truthy, so neither
  \<open>null\<close> nor the empty string. A call that throws (the provider failed on every
  attempt, or the conversion threw), a call that returns \<open>null\<close> (as when the text of a
  \<open>json_object\<close> answer does not parse), and a call with no \<open>cacheTimeoutSeconds\<close> leave
  the cache as it was.
\<close>

theorem sendMessage_store:
  "(cache (snd (sendMessage e message opts io w)) = cache w \<or>
    (\<exists>ttl v t key. io_cacheTimeoutSeconds io = Some ttl \<and> ttl \<noteq> 0 \<and>
       fst (sendMessage e message opts io w) = Returned v \<and> v \<noteq> JNull \<and> v \<noteq> JStr [] \<and>
       truthy v \<and>
       cache (snd (sendMessage e message opts io w)) = saveToCache (cache w) t key v ttl)) \<and>
   ((\<exists>error. fst (sendMessage e message opts io w) = Thrown error) \<longrightarrow>
      cache (snd (sendMessage e message opts io w)) = cache w) \<and>
   (fst (sendMessage e message opts io w) = Returned JNull \<longrightarrow>
      cache (snd (sendMessage e message opts io w)) = cache w) \<and>
   (io_cacheTimeoutSeconds io = None \<longrightarrow>
      cache (snd (sendMessage e message opts io w)) = cache w)"
proof -
  have main: "cache (snd (sendMessage e message opts io w)) = cache w \<or>
    (\<exists>ttl v t key. io_cacheTimeoutSeconds io = Some ttl \<and> ttl \<noteq> 0 \<and>
       fst (sendMessage e message opts io w) = Returned v \<and> truthy v \<and>
       cache (snd (sendMessage e message opts io w)) = saveToCache (cache w) t key v ttl)"
  proof (cases "request_of e message opts")
    case (Inl error)
    then show ?thesis by (simp add: sendMessage_throws)
  next
    case (Inr req)
    show ?thesis
    proof (cases "cache_hit e io req w")
      case True
      then show ?thesis by (simp add: sendMessage_hit[OF Inr])
    next
      case False
      show ?thesis
        unfolding sendMessage_miss[OF Inr False]
        using retry_loop_cache[of e io req "JSON_stringify e req" "io_cacheTimeoutSeconds io"
            "response_format_of opts" "or_int (io_retryAttempts io) 0" 0 w]
        by blast
    qed
  qed
  have t: "\<And>v. truthy v \<Longrightarrow> v \<noteq> JNull \<and> v \<noteq> JStr []" by auto
  from main t show ?thesis by (elim disjE exE conjE) auto
qed

theorem sendMessage_store_witness:
  "fst (sendMessage (stub_env (\<lambda>n. Inr ''{not valid json'')) (MessageString ''Hi'')
         (no_options\<lparr>response_format := Some ''json_object''\<rparr>) (IONumber 60) world0) = Returned JNull \<and>
   cache (snd (sendMessage (stub_env (\<lambda>n. Inr ''{not valid json'')) (MessageString ''Hi'')
         (no_options\<lparr>response_format := Some ''json_object''\<rparr>) (IONumber 60) world0)) = cache world0 \<and>
   fst (sendMessage (stub_env (\<lambda>n. Inl unavailable)) (MessageString ''Hi'')
         no_options (IONumber 60) world0) = Thrown unavailable \<and>
   cache (snd (sendMessage (stub_env (\<lambda>n. Inl unavailable)) (MessageString ''Hi'')
         no_options (IONumber 60) world0)) = cache world0"
proof -
  have a: "fst (sendMessage (stub_env (\<lambda>n. Inr ''{not valid json'')) (MessageString ''Hi'')
         (no_options\<lparr>response_format := Some ''json_object''\<rparr>) (IONumber 60) world0) = Returned JNull"
    by code_simp
  have b: "fst (sendMessage (stub_env (\<lambda>n. Inl unavailable)) (MessageString ''Hi'')
         no_options (IONumber 60) world0) = Thrown unavailable"
    by code_simp
  from sendMessage_store[of "stub_env (\<lambda>n. Inr ''{not valid json'')" "MessageString ''Hi''"
         "no_options\<lparr>response_format := Some ''json_object''\<rparr>" "IONumber 60" world0]
    sendMessage_store[of "stub_env (\<lambda>n. Inl unavailable)" "MessageString ''Hi''"
         no_options "IONumber 60" world0] a b
  show ?thesis by simp
qed

text \<open>
  C5. With \<open>response_format = "json_object"\<close>, for a call that reaches the provider and
  gets the text \<open>raw\<close> from its first attempt that succeeds (within the retry budget):
  \<open>sendMessage\<close> returns \<open>null\<close> when \<open>JSON.parse\<close> throws on \<open>raw\<close>, and the parsed
  value otherwise. It never throws because of the parse.
\<close>

theorem sendMessage_json_object:
  assumes "request_of e message opts = Inr req"
    and "\<not> cache_hit e io req w"
    and "response_format opts = Some ''json_object''"
    and "\<forall>j<k. provider e (length (invocations w) + j) req = Inl (errs j)"
    and "provider e (length (invocations w) + k) req = Inr raw"
    and "int k \<le> or_int (io_retryAttempts io) 0"
  shows "fst (sendMessage e message opts io w) =
           (case JSON_parse e raw of Some v \<Rightarrow> Returned v | None \<Rightarrow> Returned JNull)"
  unfolding sendMessage_miss[OF assms(1,2)]
  using retry_loop_first_success[OF assms(4,5,6)] assms(3)
  by (simp add: response_format_of_def split: option.splits)

theorem sendMessage_json_object_witness:
  \<open>fst (sendMessage (stub_env (\<lambda>n. Inr ''{not valid json'')) (MessageString ''Hi'')
         (no_options\<lparr>response_format := Some ''json_object''\<rparr>) (IOObject no_interface_options)
         world0) = Returned JNull \<and>
   fst (sendMessage (stub_env (\<lambda>n. Inr ''[{"reason":"a"}]'')) (MessageString ''Hi'')
         (no_options\<lparr>response_format := Some ''json_object''\<rparr>) (IOObject no_interface_options)
         world0) = Returned (JArr [JObj [(''reason'', JStr ''a'')]])\<close>
proof -
  have miss: "\<not> cache_hit e (IOObject no_interface_options) req world0" for e req
    by (simp add: cache_hit_def io_cacheTimeoutSeconds_def no_interface_options_def truthy_number_def)
  have f: "response_format (no_options\<lparr>response_format := Some ''json_object''\<rparr>) = Some ''json_object''"
    by simp
  have k: "int 0 \<le> or_int (io_retryAttempts (IOObject no_interface_options)) 0"
    by (simp add: or_int_def io_retryAttempts_def no_interface_options_def)
  have p: "provider (stub_env (\<lambda>n. Inr s)) (length (invocations world0) + 0) req = Inr s" for s req
    by (simp add: stub_env_def)
  have none: "\<forall>j<0::nat. provider e (length (invocations world0) + j) req = Inl (errs j)" for e req errs
    by simp
  from sendMessage_json_object[OF stub_string_request miss f none p k]
    sendMessage_json_object[OF stub_string_request miss f none p k]
  show ?thesis
    by (simp add: stub_env_def stub_parse_def)
qed

text \<open>
  C6, as amended. \<open>Writer.updateMessageObject\<close>, on every message object with a
  non-empty list of messages, produces messages whose roles alternate \<open>user\<close>,
  \<open>assistant\<close>, \<open>user\<close>, ... from index 0. \<open>Gemini.convertDataStructure\<close> does not
  relabel by position: in a history that is not empty it sets the role of the first
  entry to \<open>user\<close> and keeps the role of every other entry as it came.
\<close>

theorem roles_after_normalization:
  "(\<forall>m0 ms. arrays h (messages obj) = Some (m0 # ms) \<longrightarrow>
      (\<exists>out. result_messages (updateMessageObject h obj) = Some out \<and>
             alternates (map role out))) \<and>
   (\<forall>conv. convertDataStructure input maxTokens responseFormat generationConfigOptions = Inr conv \<and>
           history conv \<noteq> [] \<longrightarrow>
      entry_role (history conv ! 0) = ''user'' \<and>
      (\<forall>i. 0 < i \<and> i < length (history conv) \<longrightarrow>
           entry_role (history conv ! i) = role (messages input ! i)))"
proof (intro conjI allI impI)
  fix m0 ms assume "arrays h (messages obj) = Some (m0 # ms)"
  from updateMessageObject_result_ex[OF this] relabel_all_alternates
  show "\<exists>out. result_messages (updateMessageObject h obj) = Some out \<and> alternates (map role out)"
    by auto
next
  fix conv
  assume a: "convertDataStructure input maxTokens responseFormat generationConfigOptions = Inr conv \<and>
           history conv \<noteq> []"
  then have ne: "messages input \<noteq> []"
    by (auto simp: convertDataStructure_def Let_def split: if_splits)
  from convertDataStructure_history[OF ne, of maxTokens responseFormat generationConfigOptions] a
  have h: "history conv =
             (case butlast (messages input) of
                [] \<Rightarrow> []
              | m # ms \<Rightarrow> \<lparr>entry_role = ''user'', parts = [\<lparr>part_text = content m\<rparr>]\<rparr> #
                         map (\<lambda>message. \<lparr>entry_role = role message,
                                          parts = [\<lparr>part_text = content message\<rparr>]\<rparr>) ms)"
    by auto
  from a h obtain m ms where b: "butlast (messages input) = m # ms"
    by (cases "butlast (messages input)") auto
  show "entry_role (history conv ! 0) = ''user''" using h b by simp
  fix i assume i: "0 < i \<and> i < length (history conv)"
  then obtain j where j: "i = Suc j" by (cases i) auto
  from i h b j have jl: "j < length ms" by simp
  from i h b have "i < length (butlast (messages input))" by simp
  then have "messages input ! i = butlast (messages input) ! i" by (simp add: nth_butlast)
  then show "entry_role (history conv ! i) = role (messages input ! i)"
    using h b j jl by simp
qed

theorem roles_after_normalization_witness:
  "(\<exists>out. result_messages (updateMessageObject
      (store0 [\<lparr>role = ''system'', content = ''Be brief.''\<rparr>,
               \<lparr>role = ''user'', content = ''Hi''\<rparr>,
               \<lparr>role = ''assistant'', content = ''Hello''\<rparr>,
               \<lparr>role = ''user'', content = ''Bye''\<rparr>]) object0) = Some out \<and>
      alternates (map role out) \<and> length out = 5)"
proof -
  have a: "arrays (store0 xs) (messages object0) = Some xs" for xs
    by (simp add: store0_def object0_def)
  from roles_after_normalization[of "store0 [\<lparr>role = ''system'', content = ''Be brief.''\<rparr>,
               \<lparr>role = ''user'', content = ''Hi''\<rparr>,
               \<lparr>role = ''assistant'', content = ''Hello''\<rparr>,
               \<lparr>role = ''user'', content = ''Bye''\<rparr>]" object0]
  obtain out where o: "result_messages (updateMessageObject
      (store0 [\<lparr>role = ''system'', content = ''Be brief.''\<rparr>,
               \<lparr>role = ''user'', content = ''Hi''\<rparr>,
               \<lparr>role = ''assistant'', content = ''Hello''\<rparr>,
               \<lparr>role = ''user'', content = ''Bye''\<rparr>]) object0) = Some out" "alternates (map role out)"
    using a by blast
  have "result_messages (updateMessageObject
      (store0 [\<lparr>role = ''system'', content = ''Be brief.''\<rparr>,
               \<lparr>role = ''user'', content = ''Hi''\<rparr>,
               \<lparr>role = ''assistant'', content = ''Hello''\<rparr>,
               \<lparr>role = ''user'', content = ''Bye''\<rparr>]) object0) =
      Some (relabel_all [hello, \<lparr>role = ''system'', content = ''Be brief.''\<rparr>,
               \<lparr>role = ''user'', content = ''Hi''\<rparr>,
               \<lparr>role = ''assistant'', content = ''Hello''\<rparr>,
               \<lparr>role = ''user'', content = ''Bye''\<rparr>])"
    by (simp add: updateMessageObject_result[OF a] greeting_def)
  with o have "length out = 5" by (auto simp: length_relabel_all)
  with o show ?thesis by blast
qed

text \<open>
  C6 as stated fails for \<open>Gemini.convertDataStructure\<close>: a conversation that opens with a
  system message gives a history whose first two roles are both \<open>user\<close>.
\<close>

theorem convertDataStructure_not_alternating:
  "convertDataStructure
     \<lparr>model = None,
        messages = [\<lparr>role = ''system'', content = ''Be brief.''\<rparr>,
                    \<lparr>role = ''user'', content = ''Hi''\<rparr>,
                    \<lparr>role = ''assistant'', content = ''Hello''\<rparr>,
                    \<lparr>role = ''user'', content = ''Bye''\<rparr>]\<rparr>
     150 ''text/plain'' Map.empty =
   Inr \<lparr>history = [\<lparr>entry_role = ''user'', parts = [\<lparr>part_text = ''Be brief.''\<rparr>]\<rparr>,
                    \<lparr>entry_role = ''user'', parts = [\<lparr>part_text = ''Hi''\<rparr>]\<rparr>,
                    \<lparr>entry_role = ''assistant'', parts = [\<lparr>part_text = ''Hello''\<rparr>]\<rparr>],
        prompt = ''Bye'',
        generationConfig = [''maxOutputTokens'' \<mapsto> JNum 150,
                            ''responseMimeType'' \<mapsto> JStr ''text/plain'']\<rparr> \<and>
   \<not> alternates [''user'', ''user'', ''assistant'']"
proof -
  have "\<not> alternates [''user'', ''user'', ''assistant'']"
    by (auto simp: alternates_def dest: spec[of _ 1])
  then show ?thesis
    by (simp add: convertDataStructure_def Let_def)
qed

text \<open>
  C7. \<open>Writer.updateMessageObject\<close> on the messages \<open>m0 # ms\<close>: a leading generic
  greeting (\<open>system\<close>, "You are a helpful assistant.") is dropped; when the message
  that leads afterwards is a system message, a \<open>user\<close> message "Hello!" is put before
  it; when the first message is no system message, neither rewrite applies. What the
  call returns is the list so obtained, relabelled by position.
\<close>

theorem updateMessageObject_rewrites:
  assumes "arrays h (messages obj) = Some (m0 # ms)"
  shows "(m0 = greeting \<and> (\<forall>m ms'. ms = m # ms' \<longrightarrow> role m \<noteq> ''system'') \<longrightarrow>
            result_messages (updateMessageObject h obj) = Some (relabel_all ms)) \<and>
         (m0 = greeting \<and> (\<exists>m ms'. ms = m # ms' \<and> role m = ''system'') \<longrightarrow>
            result_messages (updateMessageObject h obj) = Some (relabel_all (hello # ms))) \<and>
         (m0 \<noteq> greeting \<and> role m0 = ''system'' \<longrightarrow>
            result_messages (updateMessageObject h obj) = Some (relabel_all (hello # m0 # ms))) \<and>
         (role m0 \<noteq> ''system'' \<longrightarrow>
            result_messages (updateMessageObject h obj) = Some (relabel_all (m0 # ms)))"
  unfolding updateMessageObject_result[OF assms]
  by (auto simp: greeting_def split: list.splits)

theorem updateMessageObject_rewrites_witness:
  "result_messages (updateMessageObject
      (store0 [greeting, \<lparr>role = ''user'', content = ''Hi''\<rparr>]) object0) =
     Some [\<lparr>role = ''user'', content = ''Hi''\<rparr>] \<and>
   result_messages (updateMessageObject
      (store0 [\<lparr>role = ''system'', content = ''Be brief.''\<rparr>, \<lparr>role = ''user'', content = ''Hi''\<rparr>])
      object0) =
     Some [\<lparr>role = ''user'', content = ''Hello!''\<rparr>,
           \<lparr>role = ''assistant'', content = ''Be brief.''\<rparr>,
           \<lparr>role = ''user'', content = ''Hi''\<rparr>] \<and>
   result_messages (updateMessageObject
      (store0 [\<lparr>role = ''assistant'', content = ''Yes?''\<rparr>, \<lparr>role = ''user'', content = ''Hi''\<rparr>])
      object0) =
     Some [\<lparr>role = ''user'', content = ''Yes?''\<rparr>, \<lparr>role = ''assistant'', content = ''Hi''\<rparr>]"
proof -
  have a: "arrays (store0 xs) (messages object0) = Some xs" for xs
    by (simp add: store0_def object0_def)
  from updateMessageObject_rewrites[OF a, of greeting "[\<lparr>role = ''user'', content = ''Hi''\<rparr>]"]
    updateMessageObject_rewrites[OF a, of "\<lparr>role = ''system'', content = ''Be brief.''\<rparr>"
      "[\<lparr>role = ''user'', content = ''Hi''\<rparr>]"]
    updateMessageObject_rewrites[OF a, of "\<lparr>role = ''assistant'', content = ''Yes?''\<rparr>"
      "[\<lparr>role = ''user'', content = ''Hi''\<rparr>]"]
  show ?thesis
    by (simp add: greeting_def hello_def relabel_all_def relabel_def enumerate_eq_zip upt_rec)
qed

text \<open>
  C8 fails on the code at \<open>temperature: 0\<close>: \<open>options.temperature || 0.9\<close> takes the
  default for every falsy value, so a caller who asks for temperature 0 gets 0.9 in the
  \<open>generationConfig\<close> sent to the provider (the same holds for \<open>topP\<close> and \<open>topK\<close>).
  In the same call \<open>max_tokens: 0\<close> is kept: that parameter has a destructuring
  default, which only applies to a property that is not there. Lemma
  \<open>request_generationConfig\<close> gives the parameters of every request.
\<close>

theorem sendMessage_temperature_zero:
  "map (\<lambda>req. generationConfig req ''temperature'')
     (invocations (snd (sendMessage (stub_env (\<lambda>n. Inr ''ok'')) (MessageString ''Hi'')
        (no_options\<lparr>temperature := Some 0, max_tokens := Some 0\<rparr>)
        (IOObject no_interface_options) world0))) =
   [Some (JNum 0.9)] \<and>
   map (\<lambda>req. generationConfig req ''maxOutputTokens'')
     (invocations (snd (sendMessage (stub_env (\<lambda>n. Inr ''ok'')) (MessageString ''Hi'')
        (no_options\<lparr>temperature := Some 0, max_tokens := Some 0\<rparr>)
        (IOObject no_interface_options) world0))) =
   [Some (JNum 0)]"
proof -
  define opts where "opts = no_options\<lparr>temperature := Some 0, max_tokens := Some 0\<rparr>"
  define e where "e = stub_env (\<lambda>n. Inr ''ok'')"
  define req where "req = projr (request_of e (MessageString ''Hi'') opts)"
  have r: "request_of e (MessageString ''Hi'') opts = Inr req"
    unfolding req_def e_def by (rule stub_string_request)
  have miss: "\<not> cache_hit e (IOObject no_interface_options) req world0"
    by (simp add: cache_hit_def io_cacheTimeoutSeconds_def no_interface_options_def
        truthy_number_def)
  have p: "provider e (length (invocations world0) + 0) req = Inr ''ok''"
    by (simp add: e_def stub_env_def)
  have "invocations (snd (sendMessage e (MessageString ''Hi'') opts
          (IOObject no_interface_options) world0)) = [req]"
    unfolding sendMessage_miss[OF r miss]
    using retry_loop_first_success[where k=0 and r=0 and w=world0, OF _ p]
    by (simp add: or_int_def io_retryAttempts_def no_interface_options_def world0_simps)
  moreover have "generationConfig req ''temperature'' = Some (JNum 0.9)"
    using request_generationConfig(1)[OF r] by (simp add: opts_def or_number_def)
  moreover have "generationConfig req ''maxOutputTokens'' = Some (JNum 0)"
    using request_generationConfig(4)[OF r] by (simp add: opts_def)
  ultimately show ?thesis
    unfolding opts_def e_def by simp
qed

text \<open>
  C9 fails on the code: \<open>messages.shift()\<close> and \<open>messages.unshift(...)\<close> work on the
  caller's own array. After a call on a conversation that opens with the generic
  greeting, the caller's list of messages has lost the greeting.
\<close>

theorem updateMessageObject_mutates_caller:
  "arrays (store0 [greeting, \<lparr>role = ''user'', content = ''Hi''\<rparr>]) (messages object0) =
     Some [greeting, \<lparr>role = ''user'', content = ''Hi''\<rparr>] \<and>
   caller_messages (store0 [greeting, \<lparr>role = ''user'', content = ''Hi''\<rparr>]) (messages object0)
     (updateMessageObject (store0 [greeting, \<lparr>role = ''user'', content = ''Hi''\<rparr>]) object0) =
     Some [\<lparr>role = ''user'', content = ''Hi''\<rparr>]"
  by (simp add: updateMessageObject_def caller_messages_def store0_def object0_def greeting_def
      shift_def unshift_def array_map_def Let_def)

text \<open>
  C10. \<open>Gemini.sendMessage\<close> on a structured message object with an empty list of
  messages throws the TypeError of the conversion and changes nothing (no invocation of
  the provider, the cache as it was). On a list that is not empty the conversion gives
  the content of the last message as the prompt and one history entry for each message
  before the last, in order, with the text of that message; the role of an entry is the
  role of its message, but for the first entry, whose role is \<open>user\<close>. That prompt and
  that history are those of the request the call works with: the call invokes the
  provider with this request and no other, at least once unless the cache answers (or
  the retry budget is negative), and a call the cache answers returns the cached value
  and changes nothing.
\<close>

theorem sendMessage_needs_messages:
  "(messages obj = [] \<longrightarrow>
      sendMessage e (MessageObject obj) opts io w =
        (Thrown (TypeError ''Cannot read properties of undefined (reading 'content')''), w)) \<and>
   (messages obj \<noteq> [] \<longrightarrow>
      (\<exists>conv. convertDataStructure obj maxTokens responseFormat generationConfigOptions = Inr conv \<and>
         prompt conv = content (last (messages obj)) \<and>
         length (history conv) = length (messages obj) - 1 \<and>
         (\<forall>i < length (history conv).
            parts (history conv ! i) = [\<lparr>part_text = content (messages obj ! i)\<rparr>] \<and>
            entry_role (history conv ! i) = (if i = 0 then ''user'' else role (messages obj ! i))))) \<and>
   (messages obj \<noteq> [] \<longrightarrow>
      (\<exists>req n. request_of e (MessageObject obj) opts = Inr req \<and>
         prompt req = content (last (messages obj)) \<and>
         length (history req) = length (messages obj) - 1 \<and>
         (\<forall>i < length (history req).
            parts (history req ! i) = [\<lparr>part_text = content (messages obj ! i)\<rparr>] \<and>
            entry_role (history req ! i) = (if i = 0 then ''user'' else role (messages obj ! i))) \<and>
         invocations (snd (sendMessage e (MessageObject obj) opts io w)) =
           invocations w @ replicate n req \<and>
         (\<not> cache_hit e io req w \<and> 0 \<le> or_int (io_retryAttempts io) 0 \<longrightarrow> 0 < n) \<and>
         (cache_hit e io req w \<longrightarrow>
            sendMessage e (MessageObject obj) opts io w =
              (Returned (getFromCache (cache w) (now w) (JSON_stringify e req)), w))))"
proof (intro conjI impI)
  assume "messages obj = []"
  then have "request_of e (MessageObject obj) opts =
      Inl (TypeError ''Cannot read properties of undefined (reading 'content')'')"
    by (simp add: request_of_def messageObject_of_def convertDataStructure_empty Let_def)
  then show "sendMessage e (MessageObject obj) opts io w =
        (Thrown (TypeError ''Cannot read properties of undefined (reading 'content')''), w)"
    by (rule sendMessage_throws)
next
  assume ne: "messages obj \<noteq> []"
  from convertDataStructure_entries[OF ne]
  show "\<exists>conv. convertDataStructure obj maxTokens responseFormat generationConfigOptions = Inr conv \<and>
         prompt conv = content (last (messages obj)) \<and>
         length (history conv) = length (messages obj) - 1 \<and>
         (\<forall>i < length (history conv).
            parts (history conv ! i) = [\<lparr>part_text = content (messages obj ! i)\<rparr>] \<and>
            entry_role (history conv ! i) = (if i = 0 then ''user'' else role (messages obj ! i)))"
    by blast
next
  assume ne: "messages obj \<noteq> []"
  define mt where "mt = (case max_tokens opts of Some n \<Rightarrow> n | None \<Rightarrow> 150)"
  from convertDataStructure_entries[OF ne, of mt "response_format_of opts"
      "generationConfigOptions_of opts"]
  obtain conv where c:
    "convertDataStructure obj mt (response_format_of opts) (generationConfigOptions_of opts) =
       Inr conv"
    "prompt conv = content (last (messages obj))"
    "length (history conv) = length (messages obj) - 1"
    "\<forall>i < length (history conv).
            parts (history conv ! i) = [\<lparr>part_text = content (messages obj ! i)\<rparr>] \<and>
            entry_role (history conv ! i) = (if i = 0 then ''user'' else role (messages obj ! i))"
    by blast
  define req where "req = converted.extend conv (request.fields
      (or_string (returnModelByAlias e ''gemini'' (model obj))
         (or_string (options_model opts) (default_model_name e))))"
  have r: "request_of e (MessageObject obj) opts = Inr req"
    using c(1) by (simp add: request_of_def messageObject_of_def Let_def mt_def req_def)
  have p: "prompt req = prompt conv" "history req = history conv"
    by (simp_all add: req_def converted.defs request.defs)
  have "\<exists>n. invocations (snd (sendMessage e (MessageObject obj) opts io w)) =
           invocations w @ replicate n req \<and>
         (\<not> cache_hit e io req w \<and> 0 \<le> or_int (io_retryAttempts io) 0 \<longrightarrow> 0 < n)"
  proof (cases "cache_hit e io req w")
    case True
    then show ?thesis by (intro exI[of _ 0]) (simp add: sendMessage_hit[OF r])
  next
    case False
    show ?thesis
      unfolding sendMessage_miss[OF r False]
      using retry_loop_invocations[of e io req "JSON_stringify e req" "io_cacheTimeoutSeconds io"
          "response_format_of opts" "or_int (io_retryAttempts io) 0" 0 w]
      by blast
  qed
  then obtain n where n: "invocations (snd (sendMessage e (MessageObject obj) opts io w)) =
           invocations w @ replicate n req"
         "\<not> cache_hit e io req w \<and> 0 \<le> or_int (io_retryAttempts io) 0 \<longrightarrow> 0 < n"
    by blast
  have h: "cache_hit e io req w \<longrightarrow>
            sendMessage e (MessageObject obj) opts io w =
              (Returned (getFromCache (cache w) (now w) (JSON_stringify e req)), w)"
    by (simp add: sendMessage_hit[OF r])
  from r c(2,3,4) n h
  show "\<exists>req n. request_of e (MessageObject obj) opts = Inr req \<and>
         prompt req = content (last (messages obj)) \<and>
         length (history req) = length (messages obj) - 1 \<and>
         (\<forall>i < length (history req).
            parts (history req ! i) = [\<lparr>part_text = content (messages obj ! i)\<rparr>] \<and>
            entry_role (history req ! i) = (if i = 0 then ''user'' else role (messages obj ! i))) \<and>
         invocations (snd (sendMessage e (MessageObject obj) opts io w)) =
           invocations w @ replicate n req \<and>
         (\<not> cache_hit e io req w \<and> 0 \<le> or_int (io_retryAttempts io) 0 \<longrightarrow> 0 < n) \<and>
         (cache_hit e io req w \<longrightarrow>
            sendMessage e (MessageObject obj) opts io w =
              (Returned (getFromCache (cache w) (now w) (JSON_stringify e req)), w))"
    unfolding p[symmetric] by blast
qed

theorem sendMessage_needs_messages_witness:
  "sendMessage (stub_env (\<lambda>n. Inr ''ok'')) (MessageObject \<lparr>model = None, messages = []\<rparr>)
      no_options (IOObject no_interface_options) world0 =
     (Thrown (TypeError ''Cannot read properties of undefined (reading 'content')''), world0) \<and>
   fst (sendMessage (stub_env (\<lambda>n. Inr ''ok''))
      (MessageObject \<lparr>model = None,
                       messages = [\<lparr>role = ''system'', content = ''Be brief.''\<rparr>,
                                   \<lparr>role = ''assistant'', content = ''Ok.''\<rparr>,
                                   \<lparr>role = ''user'', content = ''Why is the sky blue?''\<rparr>]\<rparr>)
      no_options (IOObject no_interface_options) world0) = Returned (JStr ''ok'') \<and>
   map (\<lambda>req. (prompt req, history req))
     (invocations (snd (sendMessage (stub_env (\<lambda>n. Inr ''ok''))
      (MessageObject \<lparr>model = None,
                       messages = [\<lparr>role = ''system'', content = ''Be brief.''\<rparr>,
                                   \<lparr>role = ''assistant'', content = ''Ok.''\<rparr>,
                                   \<lparr>role = ''user'', content = ''Why is the sky blue?''\<rparr>]\<rparr>)
      no_options (IOObject no_interface_options) world0))) =
     [(''Why is the sky blue?'',
       [\<lparr>entry_role = ''user'', parts = [\<lparr>part_text = ''Be brief.''\<rparr>]\<rparr>,
        \<lparr>entry_role = ''assistant'', parts = [\<lparr>part_text = ''Ok.''\<rparr>]\<rparr>])]"
proof -
  define e where "e = stub_env (\<lambda>n. Inr ''ok'')"
  define ms where "ms = [\<lparr>role = ''system'', content = ''Be brief.''\<rparr>,
                         \<lparr>role = ''assistant'', content = ''Ok.''\<rparr>,
                         \<lparr>role = ''user'', content = ''Why is the sky blue?''\<rparr>]"
  define obj where "obj = \<lparr>model = None, messages = ms\<rparr>"
  define io where "io = IOObject no_interface_options"
  from sendMessage_needs_messages[of "\<lparr>model = None, messages = []\<rparr>" e no_options io world0]
  have a: "sendMessage e (MessageObject \<lparr>model = None, messages = []\<rparr>) no_options io world0 =
     (Thrown (TypeError ''Cannot read properties of undefined (reading 'content')''), world0)"
    by simp
  have ne: "messages obj \<noteq> []" by (simp add: obj_def ms_def)
  from sendMessage_needs_messages[of obj e no_options io world0] ne
  obtain req n where r: "request_of e (MessageObject obj) no_options = Inr req"
    "prompt req = content (last (messages obj))"
    "length (history req) = length (messages obj) - 1"
    "\<forall>i < length (history req).
        parts (history req ! i) = [\<lparr>part_text = content (messages obj ! i)\<rparr>] \<and>
        entry_role (history req ! i) = (if i = 0 then ''user'' else role (messages obj ! i))"
    "invocations (snd (sendMessage e (MessageObject obj) no_options io world0)) =
       invocations world0 @ replicate n req"
    by blast
  have len: "length (invocations (snd (sendMessage e (MessageObject obj) no_options io world0))) = 1"
    and res: "fst (sendMessage e (MessageObject obj) no_options io world0) = Returned (JStr ''ok'')"
    unfolding e_def obj_def ms_def io_def by code_simp+
  from r(5) len have n: "n = 1" by (simp add: world0_simps)
  from r(3) have "length (history req) = 2" by (simp add: obj_def ms_def)
  then obtain x y where h: "history req = [x, y]"
    by (cases "history req"; cases "tl (history req)"; cases "tl (tl (history req))") auto
  from r(4)[rule_format, of 0] r(4)[rule_format, of 1] h
  have "parts x = [\<lparr>part_text = ''Be brief.''\<rparr>]" "entry_role x = ''user''"
    "parts y = [\<lparr>part_text = ''Ok.''\<rparr>]" "entry_role y = ''assistant''"
    by (simp_all add: obj_def ms_def)
  then have xy: "x = \<lparr>entry_role = ''user'', parts = [\<lparr>part_text = ''Be brief.''\<rparr>]\<rparr>"
    "y = \<lparr>entry_role = ''assistant'', parts = [\<lparr>part_text = ''Ok.''\<rparr>]\<rparr>"
    by (cases x; simp; cases y; simp)+
  have "map (\<lambda>req. (prompt req, history req))
          (invocations (snd (sendMessage e (MessageObject obj) no_options io world0))) =
        [(''Why is the sky blue?'',
          [\<lparr>entry_role = ''user'', parts = [\<lparr>part_text = ''Be brief.''\<rparr>]\<rparr>,
           \<lparr>entry_role = ''assistant'', parts = [\<lparr>part_text = ''Ok.''\<rparr>]\<rparr>])]"
    unfolding r(5) n using r(2) h xy by (simp add: world0_simps obj_def ms_def)
  with a res show ?thesis unfolding e_def obj_def ms_def io_def by simp
qed

end
